theory Spec2Isabelle
  imports Main "HOL-Library.Word" "HOL-Library.Sublist"
begin

section \<open>Boot-time bootloader check of the KeepKey firmware\<close>

text \<open>
  A shallow embedding of \<^verbatim>\<open>check_bootloader.c\<close>: the classifier
  \<^verbatim>\<open>check_bootloader_kind\<close>, the patcher \<^verbatim>\<open>apply_hotpatch\<close> and the boot
  gate \<^verbatim>\<open>check_bootloader\<close>. The functions the file calls but does not define
  (the digest source, the flash driver, the display and the halt) are inputs of the model.
\<close>

subsection \<open>Bytes, memory and \<^verbatim>\<open>memcmp\<close>\<close>

type_synonym byte = "8 word"
type_synonym addr = "32 word"

text \<open>
  \<^verbatim>\<open>memcmp(a, b, n)\<close> compares the first \<open>n\<close> bytes as unsigned values and returns
  zero when they agree, a negative or a positive number at the first difference. Reading
  past the end of an object is undefined in C; on lists the model reports a difference
  there, so a buffer shorter than \<open>n\<close> never compares equal.
\<close>

fun memcmp :: "byte list \<Rightarrow> byte list \<Rightarrow> nat \<Rightarrow> int" where
  "memcmp a b 0 = 0"
| "memcmp (x # a) (y # b) (Suc n) =
     (if x = y then memcmp a b n else if x < y then - 1 else 1)"
| "memcmp [] b (Suc n) = - 1"
| "memcmp (x # a) [] (Suc n) = 1"

text \<open>The bytes at addresses \<open>a, a + 1, ..., a + n - 1\<close> of a memory.\<close>

definition read_bytes :: "(addr \<Rightarrow> byte) \<Rightarrow> addr \<Rightarrow> nat \<Rightarrow> byte list" where
  "read_bytes m a n = map (\<lambda>i. m (a + of_nat i)) [0..<n]"

text \<open>Storing a byte list at consecutive addresses, lowest address first.\<close>

fun write_bytes :: "(addr \<Rightarrow> byte) \<Rightarrow> addr \<Rightarrow> byte list \<Rightarrow> (addr \<Rightarrow> byte)" where
  "write_bytes m a [] = m"
| "write_bytes m a (x # xs) = write_bytes (m(a := x)) (a + 1) xs"

subsection \<open>The classification\<close>

text \<open>
  \<^verbatim>\<open>enum BL_Kind\<close> has three enumerators; the value \<^verbatim>\<open>0xa1f35c78\<close> does not fit
  a signed 32-bit integer, so the enumeration is an unsigned 32-bit value, and a variable
  of the type can hold any of them.
\<close>

type_synonym BL_Kind = "32 word"

definition BL_UNKNOWN :: BL_Kind where
  "BL_UNKNOWN = 0x0"

definition BL_HOTPATCHABLE :: BL_Kind where
  "BL_HOTPATCHABLE = 0xa1f35c78"

definition BL_PATCH_APPLIED :: BL_Kind where
  "BL_PATCH_APPLIED = 0x95c3a027"

subsection \<open>The digests of the released bootloaders\<close>

text \<open>
  The ten string literals of \<^verbatim>\<open>check_bootloader_kind\<close>, in the order of the source
  and named after its comments. Each literal has 32 bytes before its terminating NUL,
  which \<^verbatim>\<open>memcmp\<close> with length 32 does not read.
\<close>

definition bl_v1_0_0_fixed :: "byte list" where
  "bl_v1_0_0_fixed =
    [0xf1, 0x3c, 0xe2, 0x28, 0xc0, 0xbb, 0x2b, 0xdb,
     0xc5, 0x6b, 0xdc, 0xb5, 0xf4, 0x56, 0x93, 0x67,
     0xf8, 0xe3, 0x01, 0x10, 0x74, 0xcc, 0xc6, 0x33,
     0x31, 0x34, 0x8d, 0xeb, 0x49, 0x8f, 0x2d, 0x8f]"

definition bl_v1_0_1_fixed :: "byte list" where
  "bl_v1_0_1_fixed =
    [0xec, 0x61, 0x88, 0x36, 0xf8, 0x64, 0x23, 0xdb,
     0xd3, 0x11, 0x4c, 0x37, 0xd6, 0xe3, 0xe4, 0xff,
     0xdf, 0xb8, 0x7d, 0x9e, 0x4c, 0x61, 0x99, 0xcf,
     0x3e, 0x16, 0x3a, 0x67, 0xb2, 0x74, 0x98, 0xa2]"

definition bl_v1_0_3_fixed :: "byte list" where
  "bl_v1_0_3_fixed =
    [0x4f, 0x9c, 0x38, 0xc1, 0xcd, 0x06, 0xf5, 0x9e,
     0x8d, 0x4d, 0xe8, 0xe0, 0xd3, 0x1c, 0xdd, 0x34,
     0xc8, 0x31, 0x44, 0xd2, 0xdf, 0x55, 0x0c, 0x41,
     0x2e, 0x00, 0x2b, 0x4b, 0x35, 0xbd, 0x4f, 0xb3]"

definition bl_v1_0_3_signed_fixed :: "byte list" where
  "bl_v1_0_3_signed_fixed =
    [0x91, 0x7d, 0x19, 0x52, 0x26, 0x0c, 0x9b, 0x89,
     0xf3, 0xa9, 0x6b, 0xea, 0x07, 0xee, 0xa4, 0x07,
     0x4a, 0xfd, 0xcc, 0x0e, 0x8c, 0xdd, 0x5d, 0x06,
     0x4e, 0x36, 0x86, 0x8b, 0xdd, 0x68, 0xba, 0x7d]"

definition bl_v1_0_4_fixed :: "byte list" where
  "bl_v1_0_4_fixed =
    [0xfc, 0x4e, 0x5c, 0x4d, 0xc2, 0xe5, 0x12, 0x7b,
     0x68, 0x14, 0xa3, 0xf6, 0x94, 0x24, 0xc9, 0x36,
     0xf1, 0xdc, 0x24, 0x1d, 0x1d, 0xaf, 0x2c, 0x5a,
     0x2d, 0x8f, 0x07, 0x28, 0xeb, 0x69, 0xd2, 0x0d]"

definition bl_v1_0_0_unpatched :: "byte list" where
  "bl_v1_0_0_unpatched =
    [0x63, 0x97, 0xc4, 0x46, 0xf6, 0xb9, 0x00, 0x2a,
     0x8b, 0x15, 0x0b, 0xf4, 0xb9, 0xb4, 0xe0, 0xbb,
     0x66, 0x80, 0x0e, 0xd0, 0x99, 0xb8, 0x81, 0xca,
     0x49, 0x70, 0x01, 0x39, 0xb0, 0x55, 0x9f, 0x10]"

definition bl_v1_0_1_unpatched :: "byte list" where
  "bl_v1_0_1_unpatched =
    [0xd5, 0x44, 0xb5, 0xe0, 0x6b, 0x0c, 0x35, 0x5d,
     0x68, 0xb8, 0x68, 0xac, 0x75, 0x80, 0xe9, 0xba,
     0xb2, 0xd2, 0x24, 0xa1, 0xe2, 0x44, 0x08, 0x81,
     0xcc, 0x1b, 0xca, 0x2b, 0x81, 0x67, 0x52, 0xd5]"

definition bl_v1_0_3_unpatched :: "byte list" where
  "bl_v1_0_3_unpatched =
    [0x5a, 0xa5, 0x5e, 0x69, 0xf1, 0xd9, 0xaa, 0x50,
     0x4d, 0xe6, 0x0f, 0xaf, 0x22, 0xbe, 0x93, 0xcb,
     0xd0, 0x3b, 0x13, 0x73, 0x2d, 0xcb, 0x07, 0xbb,
     0xc0, 0xb7, 0xf9, 0x1d, 0x42, 0xe1, 0x4c, 0xcc]"

definition bl_v1_0_3_signed_unpatched :: "byte list" where
  "bl_v1_0_3_signed_unpatched =
    [0xcb, 0x22, 0x25, 0x48, 0xa3, 0x9f, 0xf6, 0xcb,
     0xe2, 0xae, 0x2f, 0x02, 0xc8, 0xd4, 0x31, 0xc9,
     0xae, 0x0d, 0xf8, 0x50, 0xf8, 0x14, 0x44, 0x49,
     0x11, 0xf5, 0x21, 0xb9, 0x5a, 0xb0, 0x2f, 0x4c]"

definition bl_v1_0_4_unpatched :: "byte list" where
  "bl_v1_0_4_unpatched =
    [0x77, 0x0b, 0x30, 0xaa, 0xa0, 0xbe, 0x88, 0x4e,
     0xe8, 0x62, 0x18, 0x59, 0xf5, 0xd0, 0x55, 0x43,
     0x7f, 0x89, 0x4a, 0x5c, 0x9c, 0x7c, 0xa2, 0x26,
     0x35, 0xe7, 0x02, 0x4e, 0x05, 0x98, 0x57, 0xb7]"

subsection \<open>The classifier\<close>

text \<open>
  What \<^verbatim>\<open>memory_bootloader_hash(bl_hash)\<close> hands back: the length it returns and
  the content of the buffer \<^verbatim>\<open>bl_hash\<close> after the call. The buffer is declared
  with \<^verbatim>\<open>SHA256_DIGEST_LENGTH\<close> bytes, the 32 bytes of a SHA-256 digest, so a
  well-formed content is a list of length 32.
\<close>

record hash_result =
  hash_len :: int
  bl_hash :: "byte list"

definition check_bootloader_kind :: "hash_result \<Rightarrow> BL_Kind" where
  "check_bootloader_kind r =
    (if 32 \<noteq> hash_len r then BL_UNKNOWN
     else if 0 = memcmp (bl_hash r) bl_v1_0_0_fixed 32 then BL_PATCH_APPLIED
     else if 0 = memcmp (bl_hash r) bl_v1_0_1_fixed 32 then BL_PATCH_APPLIED
     else if 0 = memcmp (bl_hash r) bl_v1_0_3_fixed 32 then BL_PATCH_APPLIED
     else if 0 = memcmp (bl_hash r) bl_v1_0_3_signed_fixed 32 then BL_PATCH_APPLIED
     else if 0 = memcmp (bl_hash r) bl_v1_0_4_fixed 32 then BL_PATCH_APPLIED
     else if 0 = memcmp (bl_hash r) bl_v1_0_0_unpatched 32 then BL_HOTPATCHABLE
     else if 0 = memcmp (bl_hash r) bl_v1_0_1_unpatched 32 then BL_HOTPATCHABLE
     else if 0 = memcmp (bl_hash r) bl_v1_0_3_unpatched 32 then BL_HOTPATCHABLE
     else if 0 = memcmp (bl_hash r) bl_v1_0_3_signed_unpatched 32 then BL_HOTPATCHABLE
     else if 0 = memcmp (bl_hash r) bl_v1_0_4_unpatched 32 then BL_HOTPATCHABLE
     else BL_UNKNOWN)"

subsection \<open>The board: flash memory and the calls made to the collaborators\<close>

text \<open>
  Every function the file calls but does not define is a collaborator. The model keeps the
  calls in the order they are made, with their arguments.
\<close>

datatype call =
    Memory_unlock
  | Flash_unlock
  | Flash_program addr "byte list" nat
  | Flash_lock
  | Flash_clear_status_flags
  | Layout_warning_static string
  | System_halt

text \<open>
  The state the check runs on: the memory-mapped flash, whether the flash is write
  protected, the error flag of the flash status register, and the calls made so far.
\<close>

record board =
  mem :: "addr \<Rightarrow> byte"
  protected :: bool
  error_flag :: bool
  calls :: "call list"

text \<open>
  The flash driver is not part of the file: its five entry points are parameters, each
  an arbitrary function on the board, so that a statement about every \<open>hw\<close> covers every
  behaviour of the hardware, failing and error-reporting writes included.
\<close>

record flash_hw =
  memory_unlock :: "board \<Rightarrow> board"
  flash_unlock :: "board \<Rightarrow> board"
  flash_program :: "addr \<Rightarrow> byte list \<Rightarrow> nat \<Rightarrow> board \<Rightarrow> board"
  flash_lock :: "board \<Rightarrow> board"
  flash_clear_status_flags :: "board \<Rightarrow> board"

text \<open>
  A call to a collaborator runs it and appends the call to the record of calls; the
  collaborator itself has no hand in that record.
\<close>

definition invoke :: "call \<Rightarrow> (board \<Rightarrow> board) \<Rightarrow> board \<Rightarrow> board" where
  "invoke c f s = (f s)\<lparr>calls := calls s @ [c]\<rparr>"

text \<open>The calls made between a state and a later one.\<close>

definition calls_since :: "board \<Rightarrow> board \<Rightarrow> call list" where
  "calls_since s s' = drop (length (calls s)) (calls s')"

text \<open>The messages shown by a sequence of calls, and its calls to the flash driver.\<close>

fun warnings :: "call list \<Rightarrow> string list" where
  "warnings [] = []"
| "warnings (Layout_warning_static m # cs) = m # warnings cs"
| "warnings (c # cs) = warnings cs"

fun is_flash_call :: "call \<Rightarrow> bool" where
  "is_flash_call (Layout_warning_static m) = False"
| "is_flash_call System_halt = False"
| "is_flash_call c = True"

subsection \<open>The patcher\<close>

definition hotpatch_addr :: addr where
  "hotpatch_addr = 0x802026c"

text \<open>
  \<^verbatim>\<open>static const char hotpatch[18]\<close>: the initialiser gives sixteen zero bytes (eight
  \<^verbatim>\<open>movs r0, r0\<close>), and C fills the two remaining elements with zero.
\<close>

definition hotpatch :: "byte list" where
  "hotpatch =
    [0x00, 0x00,
     0x00, 0x00,
     0x00, 0x00,
     0x00, 0x00,
     0x00, 0x00,
     0x00, 0x00,
     0x00, 0x00,
     0x00, 0x00] @ replicate 2 0x00"

text \<open>
  \<^verbatim>\<open>apply_hotpatch\<close> is straight-line code: five calls, then the comparison of the
  flash at the patch address with the patch. \<^verbatim>\<open>sizeof(hotpatch)\<close> is the length of
  the array.
\<close>

definition apply_hotpatch :: "flash_hw \<Rightarrow> board \<Rightarrow> bool \<times> board" where
  "apply_hotpatch hw s0 =
    (let s1 = invoke Memory_unlock (memory_unlock hw) s0;
         s2 = invoke Flash_unlock (flash_unlock hw) s1;
         s3 = invoke (Flash_program hotpatch_addr hotpatch (length hotpatch))
                (flash_program hw hotpatch_addr hotpatch (length hotpatch)) s2;
         s4 = invoke Flash_lock (flash_lock hw) s3;
         s5 = invoke Flash_clear_status_flags (flash_clear_status_flags hw) s4
     in (memcmp (read_bytes (mem s5) hotpatch_addr (length hotpatch)) hotpatch
           (length hotpatch) = 0, s5))"

subsection \<open>The boot gate\<close>

text \<open>
  \<^verbatim>\<open>layout_warning_static\<close> shows a message and \<^verbatim>\<open>system_halt\<close> never returns:
  in the model both only add to the record of calls, and a halt ends the run with the
  outcome \<open>Halted\<close>.
\<close>

datatype outcome = Continue | Halted

definition layout_warning_static :: "string \<Rightarrow> board \<Rightarrow> board" where
  "layout_warning_static msg = invoke (Layout_warning_static msg) (\<lambda>s. s)"

definition system_halt :: "board \<Rightarrow> board" where
  "system_halt = invoke System_halt (\<lambda>s. s)"

text \<open>
  The body of \<^verbatim>\<open>check_bootloader\<close> after its first line, for any value of the
  variable \<^verbatim>\<open>kind\<close>.
\<close>

definition check_bootloader_body :: "BL_Kind \<Rightarrow> flash_hw \<Rightarrow> board \<Rightarrow> outcome \<times> board" where
  "check_bootloader_body kind hw s =
    (if kind = BL_HOTPATCHABLE then
       (case apply_hotpatch hw s of (ok, s') \<Rightarrow>
          if \<not> ok then
            (Halted, system_halt (layout_warning_static ''Hotpatch failed. Contact support.'' s'))
          else (Continue, s'))
     else if kind = BL_UNKNOWN then
       (Halted, system_halt (layout_warning_static ''Unknown bootloader. Contact support.'' s))
     else if kind = BL_PATCH_APPLIED then
       (Continue, s)
     else
       (Halted, system_halt (layout_warning_static ''B/L check failed. Reboot Device!'' s)))"

definition check_bootloader :: "flash_hw \<Rightarrow> hash_result \<Rightarrow> board \<Rightarrow> outcome \<times> board" where
  "check_bootloader hw r s = check_bootloader_body (check_bootloader_kind r) hw s"

subsection \<open>A simulated flash\<close>

text \<open>
  Modelled from the spec: the flash-control collaborators (\<^verbatim>\<open>memory_unlock\<close>,
  \<^verbatim>\<open>flash_unlock\<close>, \<^verbatim>\<open>flash_program\<close>, \<^verbatim>\<open>flash_lock\<close>,
  \<^verbatim>\<open>flash_clear_status_flags\<close>) are missing from the source. The spec describes them
  as lifting the write protection, writing the bytes at the address, restoring the write
  protection and clearing the error flag, and asks for an in-memory implementation in
  which a write can be made to fail. Here a write to protected flash changes nothing and
  raises the error flag; otherwise the bytes are stored when \<open>effective\<close> holds, the
  flash stays as it was when it does not, and the error flag reports \<open>err\<close> either way.
\<close>

definition sim_flash :: "bool \<Rightarrow> bool \<Rightarrow> flash_hw" where
  "sim_flash effective err =
    \<lparr>memory_unlock = (\<lambda>s. s\<lparr>protected := False\<rparr>),
     flash_unlock = (\<lambda>s. s\<lparr>protected := False\<rparr>),
     flash_program = (\<lambda>a d n s.
        if protected s then s\<lparr>error_flag := True\<rparr>
        else if effective then s\<lparr>mem := write_bytes (mem s) a (take n d), error_flag := err\<rparr>
        else s\<lparr>error_flag := err\<rparr>),
     flash_lock = (\<lambda>s. s\<lparr>protected := True\<rparr>),
     flash_clear_status_flags = (\<lambda>s. s\<lparr>error_flag := False\<rparr>)\<rparr>"

text \<open>A board whose flash is erased (every byte \<open>0xff\<close>) and protected, before any call.\<close>

definition erased_board :: board where
  "erased_board = \<lparr>mem = (\<lambda>a. 0xff), protected = True, error_flag = False, calls = []\<rparr>"

text \<open>The same board with the patch already in place.\<close>

definition patched_board :: board where
  "patched_board = erased_board\<lparr>mem := write_bytes (mem erased_board) hotpatch_addr hotpatch\<rparr>"

section \<open>Properties of the classifier\<close>

subsection \<open>Auxiliary facts\<close>

lemma memcmp_eq_0_iff:
  "memcmp a b n = 0 \<longleftrightarrow> n \<le> length a \<and> n \<le> length b \<and> take n a = take n b"
  by (induction a b n rule: memcmp.induct) auto

lemmas digest_defs =
  bl_v1_0_0_fixed_def bl_v1_0_1_fixed_def bl_v1_0_3_fixed_def bl_v1_0_3_signed_fixed_def
  bl_v1_0_4_fixed_def bl_v1_0_0_unpatched_def bl_v1_0_1_unpatched_def
  bl_v1_0_3_unpatched_def bl_v1_0_3_signed_unpatched_def bl_v1_0_4_unpatched_def

lemma digest_lengths:
  "length bl_v1_0_0_fixed = 32" "length bl_v1_0_1_fixed = 32" "length bl_v1_0_3_fixed = 32"
  "length bl_v1_0_3_signed_fixed = 32" "length bl_v1_0_4_fixed = 32"
  "length bl_v1_0_0_unpatched = 32" "length bl_v1_0_1_unpatched = 32"
  "length bl_v1_0_3_unpatched = 32" "length bl_v1_0_3_signed_unpatched = 32"
  "length bl_v1_0_4_unpatched = 32"
  by (simp_all add: digest_defs)

lemma kinds_distinct:
  "BL_UNKNOWN \<noteq> BL_HOTPATCHABLE" "BL_UNKNOWN \<noteq> BL_PATCH_APPLIED"
  "BL_HOTPATCHABLE \<noteq> BL_PATCH_APPLIED" "BL_HOTPATCHABLE \<noteq> BL_UNKNOWN"
  "BL_PATCH_APPLIED \<noteq> BL_UNKNOWN" "BL_PATCH_APPLIED \<noteq> BL_HOTPATCHABLE"
  by (simp_all add: BL_UNKNOWN_def BL_HOTPATCHABLE_def BL_PATCH_APPLIED_def)

lemma check_bootloader_kind_cases:
  "check_bootloader_kind r = BL_UNKNOWN \<or> check_bootloader_kind r = BL_HOTPATCHABLE
     \<or> check_bootloader_kind r = BL_PATCH_APPLIED"
  by (simp add: check_bootloader_kind_def)

text \<open>On a 32-byte buffer reported with length 32 the chain of comparisons is a lookup.\<close>

lemma check_bootloader_kind_lookup:
  assumes "length d = 32"
  shows "check_bootloader_kind \<lparr>hash_len = 32, bl_hash = d\<rparr> =
    (if d \<in> {bl_v1_0_0_fixed, bl_v1_0_1_fixed, bl_v1_0_3_fixed, bl_v1_0_3_signed_fixed,
        bl_v1_0_4_fixed} then BL_PATCH_APPLIED
     else if d \<in> {bl_v1_0_0_unpatched, bl_v1_0_1_unpatched, bl_v1_0_3_unpatched,
        bl_v1_0_3_signed_unpatched, bl_v1_0_4_unpatched} then BL_HOTPATCHABLE
     else BL_UNKNOWN)"
  using assms
  by (simp add: check_bootloader_kind_def memcmp_eq_0_iff digest_lengths)

lemma kind_of_listed:
  "check_bootloader_kind \<lparr>hash_len = 32, bl_hash = bl_v1_0_0_fixed\<rparr> = BL_PATCH_APPLIED"
  "check_bootloader_kind \<lparr>hash_len = 32, bl_hash = bl_v1_0_1_fixed\<rparr> = BL_PATCH_APPLIED"
  "check_bootloader_kind \<lparr>hash_len = 32, bl_hash = bl_v1_0_3_fixed\<rparr> = BL_PATCH_APPLIED"
  "check_bootloader_kind \<lparr>hash_len = 32, bl_hash = bl_v1_0_3_signed_fixed\<rparr> = BL_PATCH_APPLIED"
  "check_bootloader_kind \<lparr>hash_len = 32, bl_hash = bl_v1_0_4_fixed\<rparr> = BL_PATCH_APPLIED"
  "check_bootloader_kind \<lparr>hash_len = 32, bl_hash = bl_v1_0_0_unpatched\<rparr> = BL_HOTPATCHABLE"
  "check_bootloader_kind \<lparr>hash_len = 32, bl_hash = bl_v1_0_1_unpatched\<rparr> = BL_HOTPATCHABLE"
  "check_bootloader_kind \<lparr>hash_len = 32, bl_hash = bl_v1_0_3_unpatched\<rparr> = BL_HOTPATCHABLE"
  "check_bootloader_kind \<lparr>hash_len = 32, bl_hash = bl_v1_0_3_signed_unpatched\<rparr> = BL_HOTPATCHABLE"
  "check_bootloader_kind \<lparr>hash_len = 32, bl_hash = bl_v1_0_4_unpatched\<rparr> = BL_HOTPATCHABLE"
  by (simp_all add: check_bootloader_kind_def memcmp_eq_0_iff digest_defs)

subsection \<open>The listed digests\<close>

text \<open>
  C2. Each of the ten digests of the source, returned by the digest source with length 32,
  is classified as the source lists it: the five fixed bootloaders as
  \<open>BL_PATCH_APPLIED\<close>, the five unpatched ones as \<open>BL_HOTPATCHABLE\<close>.
\<close>

theorem listed_digest_classified:
  "check_bootloader_kind \<lparr>hash_len = 32, bl_hash = bl_v1_0_0_fixed\<rparr> = BL_PATCH_APPLIED
   \<and> check_bootloader_kind \<lparr>hash_len = 32, bl_hash = bl_v1_0_1_fixed\<rparr> = BL_PATCH_APPLIED
   \<and> check_bootloader_kind \<lparr>hash_len = 32, bl_hash = bl_v1_0_3_fixed\<rparr> = BL_PATCH_APPLIED
   \<and> check_bootloader_kind \<lparr>hash_len = 32, bl_hash = bl_v1_0_3_signed_fixed\<rparr> = BL_PATCH_APPLIED
   \<and> check_bootloader_kind \<lparr>hash_len = 32, bl_hash = bl_v1_0_4_fixed\<rparr> = BL_PATCH_APPLIED
   \<and> check_bootloader_kind \<lparr>hash_len = 32, bl_hash = bl_v1_0_0_unpatched\<rparr> = BL_HOTPATCHABLE
   \<and> check_bootloader_kind \<lparr>hash_len = 32, bl_hash = bl_v1_0_1_unpatched\<rparr> = BL_HOTPATCHABLE
   \<and> check_bootloader_kind \<lparr>hash_len = 32, bl_hash = bl_v1_0_3_unpatched\<rparr> = BL_HOTPATCHABLE
   \<and> check_bootloader_kind \<lparr>hash_len = 32, bl_hash = bl_v1_0_3_signed_unpatched\<rparr> = BL_HOTPATCHABLE
   \<and> check_bootloader_kind \<lparr>hash_len = 32, bl_hash = bl_v1_0_4_unpatched\<rparr> = BL_HOTPATCHABLE"
  by (simp add: kind_of_listed)

subsection \<open>Digests that are not listed\<close>

text \<open>
  C3. A 32-byte digest that differs from each of the ten listed digests, returned with
  length 32, is classified \<open>BL_UNKNOWN\<close>.
\<close>

theorem unlisted_digest_unknown:
  assumes "length d = 32"
    and "d \<notin> {bl_v1_0_0_fixed, bl_v1_0_1_fixed, bl_v1_0_3_fixed, bl_v1_0_3_signed_fixed,
        bl_v1_0_4_fixed, bl_v1_0_0_unpatched, bl_v1_0_1_unpatched, bl_v1_0_3_unpatched,
        bl_v1_0_3_signed_unpatched, bl_v1_0_4_unpatched}"
  shows "check_bootloader_kind \<lparr>hash_len = 32, bl_hash = d\<rparr> = BL_UNKNOWN"
  using assms by (simp add: check_bootloader_kind_lookup)

text \<open>The digest of 32 zero bytes is not listed.\<close>

theorem unlisted_digest_unknown_witness:
  "length (replicate 32 (0 :: byte)) = 32
   \<and> replicate 32 (0 :: byte) \<notin> {bl_v1_0_0_fixed, bl_v1_0_1_fixed, bl_v1_0_3_fixed,
        bl_v1_0_3_signed_fixed, bl_v1_0_4_fixed, bl_v1_0_0_unpatched, bl_v1_0_1_unpatched,
        bl_v1_0_3_unpatched, bl_v1_0_3_signed_unpatched, bl_v1_0_4_unpatched}
   \<and> check_bootloader_kind \<lparr>hash_len = 32, bl_hash = replicate 32 0\<rparr> = BL_UNKNOWN"
proof -
  have len: "length (replicate 32 (0 :: byte)) = 32"
    by simp
  have "replicate 32 (0 :: byte) = 0 # replicate 31 0"
    using replicate_Suc [of 31 "0 :: byte"] by simp
  then have new: "replicate 32 (0 :: byte) \<notin> {bl_v1_0_0_fixed, bl_v1_0_1_fixed,
        bl_v1_0_3_fixed, bl_v1_0_3_signed_fixed, bl_v1_0_4_fixed, bl_v1_0_0_unpatched,
        bl_v1_0_1_unpatched, bl_v1_0_3_unpatched, bl_v1_0_3_signed_unpatched,
        bl_v1_0_4_unpatched}"
    by (simp add: digest_defs)
  from unlisted_digest_unknown [OF len new] len new show ?thesis
    by blast
qed

subsection \<open>A reported length other than 32\<close>

text \<open>
  C4. When the digest source reports a length other than 32, the classification is
  \<open>BL_UNKNOWN\<close> whatever the buffer holds: no comparison with a listed digest is reached.
\<close>

theorem wrong_length_unknown:
  "hash_len r \<noteq> 32 \<Longrightarrow> check_bootloader_kind r = BL_UNKNOWN"
  by (simp add: check_bootloader_kind_def)

text \<open>Length 16 with the digest of a fixed bootloader in the buffer.\<close>

theorem wrong_length_unknown_witness:
  "hash_len \<lparr>hash_len = 16, bl_hash = bl_v1_0_0_fixed\<rparr> \<noteq> 32
   \<and> check_bootloader_kind \<lparr>hash_len = 16, bl_hash = bl_v1_0_0_fixed\<rparr> = BL_UNKNOWN"
  using wrong_length_unknown [of "\<lparr>hash_len = 16, bl_hash = bl_v1_0_0_fixed\<rparr>"]
  by simp

section \<open>Properties of the patcher\<close>

subsection \<open>Auxiliary facts\<close>

lemma length_hotpatch: "length hotpatch = 18"
  by (simp add: hotpatch_def)

lemma length_read_bytes: "length (read_bytes m a n) = n"
  by (simp add: read_bytes_def)

lemma readback_iff:
  "memcmp (read_bytes m a (length hotpatch)) hotpatch (length hotpatch) = 0
     \<longleftrightarrow> read_bytes m a 18 = hotpatch"
  by (simp add: memcmp_eq_0_iff length_read_bytes length_hotpatch)

lemma calls_invoke: "calls (invoke c f s) = calls s @ [c]"
  by (simp add: invoke_def)

lemma calls_apply_hotpatch:
  "calls (snd (apply_hotpatch hw s)) = calls s @ [Memory_unlock, Flash_unlock,
     Flash_program hotpatch_addr hotpatch 18, Flash_lock, Flash_clear_status_flags]"
  by (simp add: apply_hotpatch_def Let_def calls_invoke length_hotpatch)

lemma fst_apply_hotpatch:
  "fst (apply_hotpatch hw s) \<longleftrightarrow>
     read_bytes (mem (snd (apply_hotpatch hw s))) hotpatch_addr 18 = hotpatch"
  by (simp add: apply_hotpatch_def Let_def readback_iff)

lemma calls_since_append: "calls s' = calls s @ cs \<Longrightarrow> calls_since s s' = cs"
  by (simp add: calls_since_def)

lemma write_bytes_other:
  "(\<forall>i<length d. b \<noteq> a + of_nat i) \<Longrightarrow> write_bytes m a d b = m b"
proof (induction d arbitrary: m a)
  case Nil
  then show ?case by simp
next
  case (Cons x xs)
  from Cons.prems [rule_format, of 0] have "b \<noteq> a" by simp
  moreover have "\<forall>i<length xs. b \<noteq> (a + 1) + of_nat i"
  proof (intro allI impI)
    fix i assume "i < length xs"
    then have "b \<noteq> a + of_nat (Suc i)" using Cons.prems by auto
    then show "b \<noteq> (a + 1) + of_nat i" by (simp add: ac_simps)
  qed
  ultimately show ?case using Cons.IH by simp
qed

lemma word32_of_nat_Suc_neq_0:
  "i < 2 ^ 32 - 1 \<Longrightarrow> (of_nat (Suc i) :: 32 word) \<noteq> 0"
proof
  assume lt: "i < 2 ^ 32 - 1" and "(of_nat (Suc i) :: 32 word) = 0"
  then have "2 ^ LENGTH(32) dvd Suc i"
    by (simp only: word_of_nat_eq_0_iff)
  then have "(2::nat) ^ 32 dvd Suc i"
    by simp
  then have "(2::nat) ^ 32 \<le> Suc i"
    by (rule dvd_imp_le) simp
  with lt show False by simp
qed

lemma write_bytes_at:
  "length d \<le> 2 ^ 32 \<Longrightarrow> i < length d \<Longrightarrow> write_bytes m a d (a + of_nat i) = d ! i"
proof (induction d arbitrary: m a i)
  case Nil
  then show ?case by simp
next
  case (Cons x xs)
  show ?case
  proof (cases i)
    case 0
    have "\<forall>j<length xs. a \<noteq> (a + 1) + of_nat j"
    proof (intro allI impI)
      fix j assume "j < length xs"
      with Cons.prems have "j < 2 ^ 32 - 1" by simp
      then have "(of_nat (Suc j) :: 32 word) \<noteq> 0" by (rule word32_of_nat_Suc_neq_0)
      then show "a \<noteq> (a + 1) + of_nat j" by (simp add: add.assoc)
    qed
    then have "write_bytes (m(a := x)) (a + 1) xs a = (m(a := x)) a"
      by (rule write_bytes_other)
    with 0 show ?thesis by simp
  next
    case (Suc j)
    with Cons.prems have "j < length xs" "length xs \<le> 2 ^ 32" by simp_all
    then have "write_bytes (m(a := x)) (a + 1) xs ((a + 1) + of_nat j) = xs ! j"
      using Cons.IH by blast
    moreover have "a + of_nat (Suc j) = (a + 1) + of_nat j"
      by simp
    ultimately show ?thesis
      unfolding Suc by (simp only: write_bytes.simps nth_Cons_Suc)
  qed
qed

lemma read_bytes_write_bytes:
  assumes "length d \<le> 2 ^ 32"
  shows "read_bytes (write_bytes m a d) a (length d) = d"
proof (rule nth_equalityI)
  show "length (read_bytes (write_bytes m a d) a (length d)) = length d"
    by (simp add: read_bytes_def)
next
  fix i
  assume "i < length (read_bytes (write_bytes m a d) a (length d))"
  then have i: "i < length d"
    by (simp add: read_bytes_def)
  then have "read_bytes (write_bytes m a d) a (length d) ! i
      = write_bytes m a d (a + of_nat i)"
    by (simp add: read_bytes_def)
  also have "\<dots> = d ! i"
    using assms i by (rule write_bytes_at)
  finally show "read_bytes (write_bytes m a d) a (length d) ! i = d ! i" .
qed

lemma write_bytes_idem:
  assumes "length d \<le> 2 ^ 32"
  shows "write_bytes (write_bytes m a d) a d = write_bytes m a d"
proof
  fix b
  show "write_bytes (write_bytes m a d) a d b = write_bytes m a d b"
  proof (cases "\<exists>i<length d. b = a + of_nat i")
    case True
    then obtain i where i: "i < length d" and b: "b = a + of_nat i" by blast
    have "write_bytes (write_bytes m a d) a d (a + of_nat i) = d ! i"
      using assms i by (rule write_bytes_at)
    moreover have "write_bytes m a d (a + of_nat i) = d ! i"
      using assms i by (rule write_bytes_at)
    ultimately show ?thesis
      unfolding b by (rule trans [OF _ sym])
  next
    case False
    then have "\<forall>i<length d. b \<noteq> a + of_nat i" by blast
    then show ?thesis by (rule write_bytes_other)
  qed
qed

lemma sim_flash_simps:
  "memory_unlock (sim_flash e r) s = s\<lparr>protected := False\<rparr>"
  "flash_unlock (sim_flash e r) s = s\<lparr>protected := False\<rparr>"
  "flash_program (sim_flash e r) a d n s =
     (if protected s then s\<lparr>error_flag := True\<rparr>
      else if e then s\<lparr>mem := write_bytes (mem s) a (take n d), error_flag := r\<rparr>
      else s\<lparr>error_flag := r\<rparr>)"
  "flash_lock (sim_flash e r) s = s\<lparr>protected := True\<rparr>"
  "flash_clear_status_flags (sim_flash e r) s = s\<lparr>error_flag := False\<rparr>"
  by (simp_all add: sim_flash_def)

lemma mem_sim_hotpatch:
  "mem (snd (apply_hotpatch (sim_flash e r) s)) =
     (if e then write_bytes (mem s) hotpatch_addr hotpatch else mem s)"
  by (simp add: apply_hotpatch_def Let_def invoke_def sim_flash_simps)

lemma read_hotpatch:
  "read_bytes (write_bytes m hotpatch_addr hotpatch) hotpatch_addr 18 = hotpatch"
  using read_bytes_write_bytes [of hotpatch m hotpatch_addr]
  by (simp add: length_hotpatch)

lemma write_hotpatch_idem:
  "write_bytes (write_bytes m hotpatch_addr hotpatch) hotpatch_addr hotpatch
     = write_bytes m hotpatch_addr hotpatch"
  by (rule write_bytes_idem) (simp add: length_hotpatch)

lemma erased_not_patched:
  "read_bytes (mem erased_board) hotpatch_addr 18 \<noteq> hotpatch"
proof
  assume "read_bytes (mem erased_board) hotpatch_addr 18 = hotpatch"
  then have "read_bytes (mem erased_board) hotpatch_addr 18 ! 0 = hotpatch ! 0"
    by simp
  then show False
    by (simp add: read_bytes_def erased_board_def hotpatch_def)
qed

lemma protected_invoke: "protected (invoke c f s) = protected (f s)"
  by (simp add: invoke_def)

lemma snd_apply_hotpatch:
  "snd (apply_hotpatch hw s) =
     invoke Flash_clear_status_flags (flash_clear_status_flags hw)
      (invoke Flash_lock (flash_lock hw)
        (invoke (Flash_program hotpatch_addr hotpatch 18)
           (flash_program hw hotpatch_addr hotpatch 18)
          (invoke Flash_unlock (flash_unlock hw)
            (invoke Memory_unlock (memory_unlock hw) s))))"
  by (simp add: apply_hotpatch_def Let_def length_hotpatch)

lemma protected_sim_hotpatch: "protected (snd (apply_hotpatch (sim_flash e r) s))"
  by (simp add: snd_apply_hotpatch protected_invoke sim_flash_simps)

subsection \<open>The order of the calls\<close>

text \<open>
  C6. Whatever the flash driver does, one run of \<^verbatim>\<open>apply_hotpatch\<close> makes exactly
  these calls, in this order: the two unlocking calls, the programming of the patch, then
  \<^verbatim>\<open>flash_lock\<close> and \<^verbatim>\<open>flash_clear_status_flags\<close>; and the board it leaves
  is the one obtained by running the driver's five functions in that order, so the last
  two are run on the only path there is, also when the write fails or reports an error.
  Hence the write protection is restored: with every driver whose \<^verbatim>\<open>flash_lock\<close>
  leaves the flash protected and whose \<^verbatim>\<open>flash_clear_status_flags\<close> does not touch
  the protection, the board is protected after the run; on the simulated flash this
  holds from every state, whether or not the write takes effect or reports an error.
\<close>

theorem apply_hotpatch_call_order:
  "calls_since s (snd (apply_hotpatch hw s)) = [Memory_unlock, Flash_unlock,
     Flash_program hotpatch_addr hotpatch 18, Flash_lock, Flash_clear_status_flags]
   \<and> snd (apply_hotpatch hw s) =
       invoke Flash_clear_status_flags (flash_clear_status_flags hw)
        (invoke Flash_lock (flash_lock hw)
          (invoke (Flash_program hotpatch_addr hotpatch 18)
             (flash_program hw hotpatch_addr hotpatch 18)
            (invoke Flash_unlock (flash_unlock hw)
              (invoke Memory_unlock (memory_unlock hw) s))))
   \<and> ((\<forall>t. protected (flash_lock hw t))
        \<and> (\<forall>t. protected (flash_clear_status_flags hw t) = protected t)
       \<longrightarrow> protected (snd (apply_hotpatch hw s)))
   \<and> (\<forall>e r t. protected (snd (apply_hotpatch (sim_flash e r) t)))"
proof -
  have order: "calls_since s (snd (apply_hotpatch hw s)) = [Memory_unlock, Flash_unlock,
     Flash_program hotpatch_addr hotpatch 18, Flash_lock, Flash_clear_status_flags]"
    by (simp add: calls_since_append calls_apply_hotpatch)
  have restored: "protected (snd (apply_hotpatch hw s))"
    if "\<forall>t. protected (flash_lock hw t)"
      and "\<forall>t. protected (flash_clear_status_flags hw t) = protected t"
    using that by (simp add: snd_apply_hotpatch protected_invoke)
  from order restored show ?thesis
    by (simp add: snd_apply_hotpatch [symmetric] protected_sim_hotpatch)
qed

text \<open>
  A write without effect that reports an error, on an erased board left unprotected: the
  five calls are made and the board is protected afterwards.
\<close>

theorem apply_hotpatch_call_order_witness:
  "(\<forall>t. protected (flash_lock (sim_flash False True) t))
   \<and> (\<forall>t. protected (flash_clear_status_flags (sim_flash False True) t) = protected t)
   \<and> protected (snd (apply_hotpatch (sim_flash False True) (erased_board\<lparr>protected := False\<rparr>)))
   \<and> calls_since (erased_board\<lparr>protected := False\<rparr>)
        (snd (apply_hotpatch (sim_flash False True) (erased_board\<lparr>protected := False\<rparr>)))
       = [Memory_unlock, Flash_unlock, Flash_program hotpatch_addr hotpatch 18, Flash_lock,
          Flash_clear_status_flags]"
proof -
  have lock: "\<forall>t. protected (flash_lock (sim_flash False True) t)"
    by (simp add: sim_flash_simps)
  have clear: "\<forall>t. protected (flash_clear_status_flags (sim_flash False True) t) = protected t"
    by (simp add: sim_flash_simps)
  from apply_hotpatch_call_order [where hw = "sim_flash False True" and s = "erased_board\<lparr>protected := False\<rparr>"]
    lock clear
  show ?thesis by blast
qed

subsection \<open>The result is the read-back\<close>

text \<open>
  C5. For every behaviour of the flash driver and every initial state,
  \<^verbatim>\<open>apply_hotpatch\<close> returns true exactly when the 18 bytes at the patch address,
  read after the last call, equal the patch. The result depends on nothing else: two
  runs, on any hardware and with any reported status, that end with the same 18 bytes
  return the same value.
\<close>

theorem apply_hotpatch_readback:
  "(fst (apply_hotpatch hw s) \<longleftrightarrow>
      read_bytes (mem (snd (apply_hotpatch hw s))) hotpatch_addr 18 = hotpatch)
   \<and> (\<forall>hw' s'.
        read_bytes (mem (snd (apply_hotpatch hw' s'))) hotpatch_addr 18
          = read_bytes (mem (snd (apply_hotpatch hw s))) hotpatch_addr 18
        \<longrightarrow> fst (apply_hotpatch hw' s') = fst (apply_hotpatch hw s))"
  using fst_apply_hotpatch by simp

text \<open>
  On the erased board a write that takes effect gives true, whether it reports an error
  or not, as both runs end with the same bytes at the patch address; a write without
  effect gives false there, and true on a board that already holds the patch, error
  reported or not.
\<close>

theorem apply_hotpatch_readback_witness:
  "read_bytes (mem (snd (apply_hotpatch (sim_flash True True) erased_board))) hotpatch_addr 18
     = read_bytes (mem (snd (apply_hotpatch (sim_flash True False) erased_board))) hotpatch_addr 18
   \<and> fst (apply_hotpatch (sim_flash True True) erased_board)
   \<and> fst (apply_hotpatch (sim_flash True False) erased_board)
   \<and> \<not> fst (apply_hotpatch (sim_flash False False) erased_board)
   \<and> fst (apply_hotpatch (sim_flash False True) patched_board)"
proof -
  have same: "read_bytes (mem (snd (apply_hotpatch (sim_flash True True) erased_board)))
        hotpatch_addr 18
      = read_bytes (mem (snd (apply_hotpatch (sim_flash True False) erased_board)))
        hotpatch_addr 18"
    by (simp add: mem_sim_hotpatch)
  have applied: "read_bytes (mem (snd (apply_hotpatch (sim_flash True False) erased_board)))
        hotpatch_addr 18 = hotpatch"
    by (simp add: mem_sim_hotpatch read_hotpatch)
  have untouched: "read_bytes (mem (snd (apply_hotpatch (sim_flash False False) erased_board)))
        hotpatch_addr 18 \<noteq> hotpatch"
    by (simp add: mem_sim_hotpatch erased_not_patched)
  have already: "read_bytes (mem (snd (apply_hotpatch (sim_flash False True) patched_board)))
        hotpatch_addr 18 = hotpatch"
    by (simp add: mem_sim_hotpatch patched_board_def read_hotpatch)
  have clean: "fst (apply_hotpatch (sim_flash True False) erased_board)"
    using apply_hotpatch_readback [of "sim_flash True False" erased_board] applied
    by blast
  have "fst (apply_hotpatch (sim_flash True True) erased_board)
      = fst (apply_hotpatch (sim_flash True False) erased_board)"
    using apply_hotpatch_readback [of "sim_flash True False" erased_board] same
    by blast
  moreover have "\<not> fst (apply_hotpatch (sim_flash False False) erased_board)"
    using apply_hotpatch_readback [of "sim_flash False False" erased_board] untouched
    by blast
  moreover have "fst (apply_hotpatch (sim_flash False True) patched_board)"
    using apply_hotpatch_readback [of "sim_flash False True" patched_board] already
    by blast
  ultimately show ?thesis
    using same clean by blast
qed

subsection \<open>Applying the patch twice\<close>

text \<open>
  C8. On the simulated flash, from every initial state and whether or not the write
  takes effect or reports an error, a second run of \<^verbatim>\<open>apply_hotpatch\<close> leaves the
  whole memory, and so the 18 bytes at the patch address, as the first run left it, and
  returns what the first run returned; when the write takes effect, both runs return true.
\<close>

theorem apply_hotpatch_idempotent:
  "mem (snd (apply_hotpatch (sim_flash e r) (snd (apply_hotpatch (sim_flash e r) s))))
     = mem (snd (apply_hotpatch (sim_flash e r) s))
   \<and> read_bytes (mem (snd (apply_hotpatch (sim_flash e r)
         (snd (apply_hotpatch (sim_flash e r) s))))) hotpatch_addr 18
     = read_bytes (mem (snd (apply_hotpatch (sim_flash e r) s))) hotpatch_addr 18
   \<and> fst (apply_hotpatch (sim_flash e r) (snd (apply_hotpatch (sim_flash e r) s)))
     = fst (apply_hotpatch (sim_flash e r) s)
   \<and> (e \<longrightarrow> fst (apply_hotpatch (sim_flash e r) s)
        \<and> fst (apply_hotpatch (sim_flash e r) (snd (apply_hotpatch (sim_flash e r) s))))"
  by (simp add: fst_apply_hotpatch mem_sim_hotpatch read_hotpatch write_hotpatch_idem)

theorem apply_hotpatch_idempotent_witness:
  "fst (apply_hotpatch (sim_flash True False) erased_board)
   \<and> fst (apply_hotpatch (sim_flash True False)
         (snd (apply_hotpatch (sim_flash True False) erased_board)))"
  using apply_hotpatch_idempotent [of True False erased_board] by simp

section \<open>Properties of the boot gate\<close>

subsection \<open>Auxiliary facts\<close>

lemma calls_warn_halt:
  "calls (system_halt (layout_warning_static msg s)) =
     calls s @ [Layout_warning_static msg, System_halt]"
  by (simp add: system_halt_def layout_warning_static_def calls_invoke)

lemma flash_warn_halt:
  "mem (system_halt (layout_warning_static msg s)) = mem s"
  "protected (system_halt (layout_warning_static msg s)) = protected s"
  "error_flag (system_halt (layout_warning_static msg s)) = error_flag s"
  by (simp_all add: system_halt_def layout_warning_static_def invoke_def)

text \<open>The body of the gate, branch by branch.\<close>

lemma body_hotpatchable:
  "check_bootloader_body BL_HOTPATCHABLE hw s =
     (if fst (apply_hotpatch hw s) then (Continue, snd (apply_hotpatch hw s))
      else (Halted, system_halt (layout_warning_static ''Hotpatch failed. Contact support.''
              (snd (apply_hotpatch hw s)))))"
  by (simp add: check_bootloader_body_def split: prod.splits)

lemma body_unknown:
  "check_bootloader_body BL_UNKNOWN hw s =
     (Halted, system_halt (layout_warning_static ''Unknown bootloader. Contact support.'' s))"
  by (simp add: check_bootloader_body_def kinds_distinct)

lemma body_patch_applied:
  "check_bootloader_body BL_PATCH_APPLIED hw s = (Continue, s)"
  by (simp add: check_bootloader_body_def kinds_distinct)

lemma body_other:
  "kind \<notin> {BL_UNKNOWN, BL_HOTPATCHABLE, BL_PATCH_APPLIED} \<Longrightarrow>
   check_bootloader_body kind hw s =
     (Halted, system_halt (layout_warning_static ''B/L check failed. Reboot Device!'' s))"
  by (simp add: check_bootloader_body_def)

lemma since_hotpatchable:
  "calls_since s (snd (check_bootloader_body BL_HOTPATCHABLE hw s)) =
    [Memory_unlock, Flash_unlock, Flash_program hotpatch_addr hotpatch 18, Flash_lock,
     Flash_clear_status_flags] @
    (if fst (apply_hotpatch hw s) then []
     else [Layout_warning_static ''Hotpatch failed. Contact support.'', System_halt])"
  by (rule calls_since_append)
     (simp add: body_hotpatchable calls_warn_halt calls_apply_hotpatch)

lemma since_unknown:
  "calls_since s (snd (check_bootloader_body BL_UNKNOWN hw s)) =
    [Layout_warning_static ''Unknown bootloader. Contact support.'', System_halt]"
  by (rule calls_since_append) (simp add: body_unknown calls_warn_halt)

lemma since_patch_applied:
  "calls_since s (snd (check_bootloader_body BL_PATCH_APPLIED hw s)) = []"
  by (rule calls_since_append) (simp add: body_patch_applied)

lemma since_other:
  "kind \<notin> {BL_UNKNOWN, BL_HOTPATCHABLE, BL_PATCH_APPLIED} \<Longrightarrow>
   calls_since s (snd (check_bootloader_body kind hw s)) =
    [Layout_warning_static ''B/L check failed. Reboot Device!'', System_halt]"
  by (rule calls_since_append) (simp add: body_other calls_warn_halt)

lemma fst_body:
  "fst (check_bootloader_body BL_UNKNOWN hw s) = Halted"
  "fst (check_bootloader_body BL_PATCH_APPLIED hw s) = Continue"
  "fst (check_bootloader_body BL_HOTPATCHABLE hw s) =
     (if fst (apply_hotpatch hw s) then Continue else Halted)"
  by (simp_all add: body_unknown body_patch_applied body_hotpatchable)

lemma fst_body_other:
  "kind \<notin> {BL_UNKNOWN, BL_HOTPATCHABLE, BL_PATCH_APPLIED} \<Longrightarrow>
   fst (check_bootloader_body kind hw s) = Halted"
  by (simp add: body_other)

lemma frame_body:
  "kind \<noteq> BL_HOTPATCHABLE \<Longrightarrow> mem (snd (check_bootloader_body kind hw s)) = mem s"
  "kind \<noteq> BL_HOTPATCHABLE \<Longrightarrow>
     protected (snd (check_bootloader_body kind hw s)) = protected s"
  "kind \<noteq> BL_HOTPATCHABLE \<Longrightarrow>
     error_flag (snd (check_bootloader_body kind hw s)) = error_flag s"
  by (simp_all add: check_bootloader_body_def flash_warn_halt)

lemma frame_body_hotpatchable:
  "mem (snd (check_bootloader_body BL_HOTPATCHABLE hw s)) = mem (snd (apply_hotpatch hw s))"
  "protected (snd (check_bootloader_body BL_HOTPATCHABLE hw s))
     = protected (snd (apply_hotpatch hw s))"
  "error_flag (snd (check_bootloader_body BL_HOTPATCHABLE hw s))
     = error_flag (snd (apply_hotpatch hw s))"
  by (simp_all add: body_hotpatchable flash_warn_halt)

lemma one_not_kind: "(1 :: BL_Kind) \<notin> {BL_UNKNOWN, BL_HOTPATCHABLE, BL_PATCH_APPLIED}"
  by (simp add: BL_UNKNOWN_def BL_HOTPATCHABLE_def BL_PATCH_APPLIED_def)

subsection \<open>The decision\<close>

text \<open>
  C1. For the kind the classifier returns, \<^verbatim>\<open>check_bootloader\<close> halts with the
  single warning "Unknown bootloader. Contact support.", shown right before the halt,
  exactly when the kind is \<open>BL_UNKNOWN\<close>; it halts in the same way with
  "Hotpatch failed. Contact support." exactly when the kind is \<open>BL_HOTPATCHABLE\<close> and
  \<^verbatim>\<open>apply_hotpatch\<close> returns false; and it returns, with no warning and no halt,
  exactly when the kind is \<open>BL_PATCH_APPLIED\<close>, or \<open>BL_HOTPATCHABLE\<close> with
  \<^verbatim>\<open>apply_hotpatch\<close> returning true.
\<close>

theorem check_bootloader_outcomes:
  "((fst (check_bootloader hw r s) = Halted
      \<and> warnings (calls_since s (snd (check_bootloader hw r s)))
          = [''Unknown bootloader. Contact support.'']
      \<and> suffix [Layout_warning_static ''Unknown bootloader. Contact support.'', System_halt]
          (calls_since s (snd (check_bootloader hw r s))))
     \<longleftrightarrow> check_bootloader_kind r = BL_UNKNOWN)
   \<and> ((fst (check_bootloader hw r s) = Halted
      \<and> warnings (calls_since s (snd (check_bootloader hw r s)))
          = [''Hotpatch failed. Contact support.'']
      \<and> suffix [Layout_warning_static ''Hotpatch failed. Contact support.'', System_halt]
          (calls_since s (snd (check_bootloader hw r s))))
     \<longleftrightarrow> check_bootloader_kind r = BL_HOTPATCHABLE \<and> \<not> fst (apply_hotpatch hw s))
   \<and> ((fst (check_bootloader hw r s) = Continue
      \<and> warnings (calls_since s (snd (check_bootloader hw r s))) = []
      \<and> System_halt \<notin> set (calls_since s (snd (check_bootloader hw r s))))
     \<longleftrightarrow> check_bootloader_kind r = BL_PATCH_APPLIED
         \<or> check_bootloader_kind r = BL_HOTPATCHABLE \<and> fst (apply_hotpatch hw s))"
proof -
  consider (u) "check_bootloader_kind r = BL_UNKNOWN"
    | (h) "check_bootloader_kind r = BL_HOTPATCHABLE"
    | (p) "check_bootloader_kind r = BL_PATCH_APPLIED"
    using check_bootloader_kind_cases by blast
  then show ?thesis
  proof cases
    case u
    then show ?thesis
      by (simp add: check_bootloader_def since_unknown fst_body kinds_distinct)
  next
    case h
    then show ?thesis
      by (simp add: check_bootloader_def since_hotpatchable fst_body kinds_distinct
          suffix_def)
  next
    case p
    then show ?thesis
      by (simp add: check_bootloader_def since_patch_applied fst_body kinds_distinct)
  qed
qed

subsection \<open>Flash calls only for a repairable bootloader\<close>

text \<open>
  C7. The calls \<^verbatim>\<open>check_bootloader\<close> makes to the flash driver are the five calls of
  one run of \<^verbatim>\<open>apply_hotpatch\<close> when the kind is \<open>BL_HOTPATCHABLE\<close>, and none
  otherwise. When the kind is \<open>BL_HOTPATCHABLE\<close>, \<^verbatim>\<open>apply_hotpatch\<close> is run: the
  flash memory, its protection and its error flag after the gate are those after
  \<^verbatim>\<open>apply_hotpatch\<close> on the initial board, and the gate continues or halts as
  \<^verbatim>\<open>apply_hotpatch\<close> returns true or false. For every other kind the flash memory,
  its protection and its error flag are left as they were.
\<close>

theorem hotpatch_only_when_repairable:
  "filter is_flash_call (calls_since s (snd (check_bootloader hw r s))) =
     (if check_bootloader_kind r = BL_HOTPATCHABLE
      then [Memory_unlock, Flash_unlock, Flash_program hotpatch_addr hotpatch 18, Flash_lock,
            Flash_clear_status_flags]
      else [])
   \<and> (check_bootloader_kind r = BL_HOTPATCHABLE \<longrightarrow>
        mem (snd (check_bootloader hw r s)) = mem (snd (apply_hotpatch hw s))
        \<and> protected (snd (check_bootloader hw r s)) = protected (snd (apply_hotpatch hw s))
        \<and> error_flag (snd (check_bootloader hw r s)) = error_flag (snd (apply_hotpatch hw s))
        \<and> fst (check_bootloader hw r s)
            = (if fst (apply_hotpatch hw s) then Continue else Halted))
   \<and> (check_bootloader_kind r \<noteq> BL_HOTPATCHABLE \<longrightarrow>
        mem (snd (check_bootloader hw r s)) = mem s
        \<and> protected (snd (check_bootloader hw r s)) = protected s
        \<and> error_flag (snd (check_bootloader hw r s)) = error_flag s)"
proof -
  consider (u) "check_bootloader_kind r = BL_UNKNOWN"
    | (h) "check_bootloader_kind r = BL_HOTPATCHABLE"
    | (p) "check_bootloader_kind r = BL_PATCH_APPLIED"
    using check_bootloader_kind_cases by blast
  then show ?thesis
  proof cases
    case u
    then show ?thesis
      by (simp add: check_bootloader_def since_unknown frame_body kinds_distinct)
  next
    case h
    then show ?thesis
      by (simp add: check_bootloader_def since_hotpatchable frame_body_hotpatchable fst_body)
  next
    case p
    then show ?thesis
      by (simp add: check_bootloader_def since_patch_applied frame_body kinds_distinct)
  qed
qed

text \<open>
  A fixed bootloader and an unpatched one, on the erased board: the first leaves the
  flash alone, the second ends with the patch in the flash, the flash protected and the
  boot continuing.
\<close>

theorem hotpatch_only_when_repairable_witness:
  "check_bootloader_kind \<lparr>hash_len = 32, bl_hash = bl_v1_0_0_fixed\<rparr> \<noteq> BL_HOTPATCHABLE
   \<and> filter is_flash_call (calls_since erased_board (snd (check_bootloader
         (sim_flash True False) \<lparr>hash_len = 32, bl_hash = bl_v1_0_0_fixed\<rparr> erased_board))) = []
   \<and> mem (snd (check_bootloader (sim_flash True False)
         \<lparr>hash_len = 32, bl_hash = bl_v1_0_0_fixed\<rparr> erased_board)) = mem erased_board
   \<and> check_bootloader_kind \<lparr>hash_len = 32, bl_hash = bl_v1_0_0_unpatched\<rparr> = BL_HOTPATCHABLE
   \<and> filter is_flash_call (calls_since erased_board (snd (check_bootloader
         (sim_flash True False) \<lparr>hash_len = 32, bl_hash = bl_v1_0_0_unpatched\<rparr> erased_board)))
       = [Memory_unlock, Flash_unlock, Flash_program hotpatch_addr hotpatch 18, Flash_lock,
          Flash_clear_status_flags]
   \<and> read_bytes (mem (snd (check_bootloader (sim_flash True False)
         \<lparr>hash_len = 32, bl_hash = bl_v1_0_0_unpatched\<rparr> erased_board))) hotpatch_addr 18
       = hotpatch
   \<and> protected (snd (check_bootloader (sim_flash True False)
         \<lparr>hash_len = 32, bl_hash = bl_v1_0_0_unpatched\<rparr> erased_board))
   \<and> fst (check_bootloader (sim_flash True False)
         \<lparr>hash_len = 32, bl_hash = bl_v1_0_0_unpatched\<rparr> erased_board) = Continue"
proof -
  have applied: "read_bytes (mem (snd (apply_hotpatch (sim_flash True False) erased_board)))
      hotpatch_addr 18 = hotpatch"
    by (simp add: mem_sim_hotpatch read_hotpatch)
  then have ok: "fst (apply_hotpatch (sim_flash True False) erased_board)"
    by (simp add: fst_apply_hotpatch)
  from hotpatch_only_when_repairable [where s = erased_board and hw = "sim_flash True False"
      and r = "\<lparr>hash_len = 32, bl_hash = bl_v1_0_0_fixed\<rparr>"]
    hotpatch_only_when_repairable [where s = erased_board and hw = "sim_flash True False"
      and r = "\<lparr>hash_len = 32, bl_hash = bl_v1_0_0_unpatched\<rparr>"]
    applied ok
  show ?thesis
    by (simp add: kind_of_listed kinds_distinct protected_sim_hotpatch)
qed

subsection \<open>Kinds outside the enumeration\<close>

text \<open>
  The claim C9, that a kind outside the three enumerators gives the outcome of
  \<open>BL_UNKNOWN\<close>, fails for the kind 1: the warning shown is the generic one, not the
  unknown-bootloader one.
\<close>

theorem other_kind_as_unknown_counterexample:
  "(1 :: BL_Kind) \<notin> {BL_UNKNOWN, BL_HOTPATCHABLE, BL_PATCH_APPLIED}
   \<and> warnings (calls_since erased_board
         (snd (check_bootloader_body 1 (sim_flash True False) erased_board)))
       = [''B/L check failed. Reboot Device!'']
   \<and> warnings (calls_since erased_board
         (snd (check_bootloader_body BL_UNKNOWN (sim_flash True False) erased_board)))
       = [''Unknown bootloader. Contact support.'']
   \<and> warnings (calls_since erased_board
         (snd (check_bootloader_body 1 (sim_flash True False) erased_board)))
       \<noteq> warnings (calls_since erased_board
         (snd (check_bootloader_body BL_UNKNOWN (sim_flash True False) erased_board)))"
proof -
  have "warnings (calls_since erased_board
         (snd (check_bootloader_body 1 (sim_flash True False) erased_board)))
       = [''B/L check failed. Reboot Device!'']"
    by (simp add: since_other [OF one_not_kind])
  moreover have "warnings (calls_since erased_board
         (snd (check_bootloader_body BL_UNKNOWN (sim_flash True False) erased_board)))
       = [''Unknown bootloader. Contact support.'']"
    by (simp add: since_unknown)
  ultimately show ?thesis
    using one_not_kind by simp
qed

text \<open>
  C9, as amended. Every kind outside the three enumerators makes the body of
  \<^verbatim>\<open>check_bootloader\<close> halt after the generic warning
  "B/L check failed. Reboot Device!", with no call to the flash driver and the flash
  memory unchanged.
\<close>

theorem other_kind_generic_halt:
  "kind \<notin> {BL_UNKNOWN, BL_HOTPATCHABLE, BL_PATCH_APPLIED} \<Longrightarrow>
   fst (check_bootloader_body kind hw s) = Halted
   \<and> calls_since s (snd (check_bootloader_body kind hw s)) =
       [Layout_warning_static ''B/L check failed. Reboot Device!'', System_halt]
   \<and> mem (snd (check_bootloader_body kind hw s)) = mem s"
  by (simp add: since_other fst_body_other frame_body)

theorem other_kind_generic_halt_witness:
  "(1 :: BL_Kind) \<notin> {BL_UNKNOWN, BL_HOTPATCHABLE, BL_PATCH_APPLIED}
   \<and> fst (check_bootloader_body 1 (sim_flash True False) erased_board) = Halted
   \<and> calls_since erased_board (snd (check_bootloader_body 1 (sim_flash True False) erased_board))
       = [Layout_warning_static ''B/L check failed. Reboot Device!'', System_halt]
   \<and> mem (snd (check_bootloader_body 1 (sim_flash True False) erased_board)) = mem erased_board"
  using other_kind_generic_halt [OF one_not_kind, of "sim_flash True False" erased_board] one_not_kind
  by blast

subsection \<open>The fallback branch is never taken\<close>

text \<open>
  C10. \<^verbatim>\<open>check_bootloader_kind\<close> returns one of \<open>BL_UNKNOWN\<close>,
  \<open>BL_HOTPATCHABLE\<close> and \<open>BL_PATCH_APPLIED\<close>, so \<^verbatim>\<open>check_bootloader\<close> never
  shows the generic warning "B/L check failed. Reboot Device!".
\<close>

theorem kind_closed_no_generic_warning:
  "check_bootloader_kind r \<in> {BL_UNKNOWN, BL_HOTPATCHABLE, BL_PATCH_APPLIED}
   \<and> Layout_warning_static ''B/L check failed. Reboot Device!''
       \<notin> set (calls_since s (snd (check_bootloader hw r s)))"
proof -
  consider (u) "check_bootloader_kind r = BL_UNKNOWN"
    | (h) "check_bootloader_kind r = BL_HOTPATCHABLE"
    | (p) "check_bootloader_kind r = BL_PATCH_APPLIED"
    using check_bootloader_kind_cases by blast
  then show ?thesis
  proof cases
    case u
    then show ?thesis
      by (simp add: check_bootloader_def since_unknown)
  next
    case h
    then show ?thesis
      by (simp add: check_bootloader_def since_hotpatchable)
  next
    case p
    then show ?thesis
      by (simp add: check_bootloader_def since_patch_applied)
  qed
qed

end
